theory Spec2Isabelle
  imports Complex_Main
begin

section \<open>Responses\<close>

text \<open>
  Every handler answers either with data or with an HTTP error status and a message:
  401 \<open>Unauthorized\<close>, 400 \<open>ValidationFailure\<close> with the handler's own message, 404
  \<open>NotFound\<close>, 409 \<open>Conflict\<close>, 500 \<open>InternalFailure\<close>.
  \<open>SchemaValidationFailure\<close> is the status 400 that a catch block gives a
  \<open>ValidationError\<close> raised by the schema validators of the store when it writes.
  The messages of \<open>SchemaValidationFailure\<close> and \<open>InternalFailure\<close> come from the
  caught exception and are not modelled.
\<close>

datatype error =
    Unauthorized
  | ValidationFailure string
  | SchemaValidationFailure
  | NotFound string
  | Conflict string
  | InternalFailure

section \<open>Strings\<close>

text \<open>
  Strings are lists of code units below 256. \<open>trim\<close> is \<open>String.prototype.trim\<close>:
  it removes white space and line terminators (code units 9 to 13, 32 and 160 in this
  range) from both ends. \<open>digitsOnly\<close> is the test \<open>/^\d+$/\<close>.
\<close>

definition isSpace :: "char \<Rightarrow> bool" where
  "isSpace c = (c \<in> set [CHR 0x09, CHR 0x0A, CHR 0x0B, CHR 0x0C, CHR 0x0D, CHR 0x20, CHR 0xA0])"

definition isDigit :: "char \<Rightarrow> bool" where
  "isDigit c = (c \<in> set ''0123456789'')"

definition trim :: "string \<Rightarrow> string" where
  "trim s = rev (dropWhile isSpace (rev (dropWhile isSpace s)))"

definition digitsOnly :: "string \<Rightarrow> bool" where
  "digitsOnly s = (s \<noteq> [] \<and> list_all isDigit s)"

fun join :: "string \<Rightarrow> string list \<Rightarrow> string" where
  "join sep [] = []"
| "join sep [x] = x"
| "join sep (x # y # ys) = x @ sep @ join sep (y # ys)"

text \<open>\<open>Array.prototype.findIndex\<close>; \<open>None\<close> stands for the result -1.\<close>

fun findIndex :: "('a \<Rightarrow> bool) \<Rightarrow> 'a list \<Rightarrow> nat option" where
  "findIndex p [] = None"
| "findIndex p (x # xs) =
     (if p x then Some 0 else map_option Suc (findIndex p xs))"

section \<open>Addresses\<close>

text \<open>
  \<open>UserAddress\<close>, an embedded sub-document of a user. \<open>addr_id\<close> is the field
  \<open>_id\<close> as the string \<open>toString()\<close> gives, \<open>None\<close> when the field is absent.
\<close>

record address =
  addr_id :: "string option"
  street :: string
  city :: string
  state :: string
  zipCode :: string
  country :: string
  isDefault :: bool
  label :: string
  phone :: "string option"

text \<open>\<open>AddressRequestBody\<close>: every field may be omitted (\<open>None\<close> is \<open>undefined\<close>).\<close>

record addressRequestBody =
  req_addressId :: "string option"
  req_street :: "string option"
  req_city :: "string option"
  req_state :: "string option"
  req_zipCode :: "string option"
  req_country :: "string option"
  req_isDefault :: "bool option"
  req_label :: "string option"
  req_phone :: "string option"

text \<open>
  \<open>validateAddressData\<close>: a field that is \<open>undefined\<close> is skipped; a string is
  falsy exactly when it is empty.
\<close>

definition blank :: "string \<Rightarrow> bool" where
  "blank s = (if s = [] then True else trim s = [])"

definition validateAddressData ::
  "string option \<Rightarrow> string option \<Rightarrow> string option \<Rightarrow> string option \<Rightarrow>
   string option \<Rightarrow> string option \<Rightarrow> string list" where
  "validateAddressData streetv cityv statev zipv countryv labelv =
     (case streetv of Some s \<Rightarrow> (if blank s then [''Street is required''] else []) | None \<Rightarrow> [])
   @ (case cityv of Some s \<Rightarrow> (if blank s then [''City is required''] else []) | None \<Rightarrow> [])
   @ (case statev of Some s \<Rightarrow> (if blank s then [''State is required''] else []) | None \<Rightarrow> [])
   @ (case zipv of
        Some s \<Rightarrow>
          (if blank s then [''ZIP code is required'']
           else if digitsOnly (trim s) then []
           else [''ZIP code must contain only numbers''])
      | None \<Rightarrow> [])
   @ (case countryv of Some s \<Rightarrow> (if blank s then [''Country is required''] else []) | None \<Rightarrow> [])
   @ (case labelv of
        Some l \<Rightarrow>
          (if l \<in> set [''home'', ''work'', ''other''] then []
           else [''Label must be one of: home, work, other''])
      | None \<Rightarrow> [])"

subsection \<open>The pre-save hook of the user schema\<close>

text \<open>
  \<open>UserSchema.pre('save')\<close>. When the address list is modified and more than one
  address is flagged, the loop visits every index in order and assigns
  \<open>addr.isDefault = (index === this.addresses.findIndex(a => a.isDefault))\<close>; the
  index of the first flagged address is computed again at every step, on the list as the
  loop has left it.
\<close>

definition preSaveStep :: "nat \<Rightarrow> address list \<Rightarrow> address list" where
  "preSaveStep index as =
     as[index := (as ! index)\<lparr>isDefault := (findIndex isDefault as = Some index)\<rparr>]"

definition preSave :: "bool \<Rightarrow> address list \<Rightarrow> address list" where
  "preSave modified as =
     (if modified then
        (if length (filter isDefault as) > 1
         then fold preSaveStep [0..<length as] as
         else as)
      else as)"

text \<open>
  \<open>user.save()\<close> on the address list. \<open>AddressSchema\<close> requires \<open>street\<close>,
  \<open>city\<close>, \<open>state\<close>, \<open>zipCode\<close> and \<open>country\<close> (a required string must
  not be empty) and restricts \<open>label\<close> to its enumeration; the validators run on every
  address of the list, before the hook. The other fields of the user document are taken
  to satisfy \<open>UserSchema\<close>, and the connection to the store not to fail. An address
  that is in the store has passed these validators.
\<close>

definition schemaValid :: "address \<Rightarrow> bool" where
  "schemaValid a =
     (street a \<noteq> [] \<and> city a \<noteq> [] \<and> state a \<noteq> [] \<and> zipCode a \<noteq> [] \<and>
      country a \<noteq> [] \<and> label a \<in> set [''home'', ''work'', ''other''])"

definition save :: "bool \<Rightarrow> address list \<Rightarrow> error + address list" where
  "save modified as =
     (if list_all schemaValid as then Inr (preSave modified as)
      else Inl SchemaValidationFailure)"

subsection \<open>The address handlers\<close>

text \<open>
  The store maps the e-mail of a user to that user's address list. A handler takes the
  e-mail of the session (\<open>None\<close> without a session; an empty e-mail is refused
  like none) and the store, and returns its response together with the store as it
  leaves it. Only \<open>save()\<close> writes.
\<close>

type_synonym users = "string \<rightharpoonup> address list"

type_synonym addressResponse = "(error + address list) \<times> users"

definition persist :: "string \<Rightarrow> users \<Rightarrow> error + address list \<Rightarrow> addressResponse" where
  "persist email db r =
     (case r of
        Inl e \<Rightarrow> (Inl e, db)
      | Inr saved \<Rightarrow> (Inr saved, db(email \<mapsto> saved)))"

text \<open>
  POST. The destructuring of the body gives \<open>country\<close>, \<open>isDefault\<close>,
  \<open>label\<close> and \<open>phone\<close> their default values. \<open>newAddressOf\<close> is the object
  literal \<open>newAddress\<close>; \<open>newId\<close> is the identifier the store gives the pushed
  sub-document. An omitted \<open>street\<close>, \<open>city\<close>, \<open>state\<close> or \<open>zipCode\<close>
  passes the validation; the literal then raises a TypeError at \<open>street!.trim()\<close>
  (\<open>None\<close> here), which the handler's catch reports as status 500.
\<close>

definition countryOf :: "addressRequestBody \<Rightarrow> string" where
  "countryOf body = (case req_country body of None \<Rightarrow> ''Bangladesh'' | Some c \<Rightarrow> c)"

definition isDefaultOf :: "addressRequestBody \<Rightarrow> bool" where
  "isDefaultOf body = (case req_isDefault body of None \<Rightarrow> False | Some b \<Rightarrow> b)"

definition labelOf :: "addressRequestBody \<Rightarrow> string" where
  "labelOf body = (case req_label body of None \<Rightarrow> ''home'' | Some l \<Rightarrow> l)"

definition phoneOf :: "addressRequestBody \<Rightarrow> string" where
  "phoneOf body = (case req_phone body of None \<Rightarrow> [] | Some p \<Rightarrow> p)"

definition newAddressOf :: "addressRequestBody \<Rightarrow> string \<Rightarrow> address option" where
  "newAddressOf body newId =
     (case req_street body of None \<Rightarrow> None | Some streetv \<Rightarrow>
      case req_city body of None \<Rightarrow> None | Some cityv \<Rightarrow>
      case req_state body of None \<Rightarrow> None | Some statev \<Rightarrow>
      case req_zipCode body of None \<Rightarrow> None | Some zipv \<Rightarrow>
        Some \<lparr>addr_id = Some newId, street = trim streetv, city = trim cityv,
              state = trim statev, zipCode = trim zipv, country = trim (countryOf body),
              isDefault = isDefaultOf body, label = labelOf body,
              phone = Some (trim (phoneOf body))\<rparr>)"

text \<open>
  The default handling of POST and the push: a new default address clears the flag of
  every address already there, and the first address of a list is made the default.
\<close>

definition pushAddress :: "address list \<Rightarrow> address \<Rightarrow> address list" where
  "pushAddress addresses newAddress =
     (let cleared =
            (if isDefault newAddress \<and> length addresses > 0
             then map (\<lambda>addr. addr\<lparr>isDefault := False\<rparr>) addresses
             else addresses);
          newAddress' =
            (if length addresses = 0 then newAddress\<lparr>isDefault := True\<rparr>
             else newAddress)
      in cleared @ [newAddress'])"

definition addAddress ::
  "string option \<Rightarrow> users \<Rightarrow> addressRequestBody \<Rightarrow> string \<Rightarrow> addressResponse" where
  "addAddress session db body newId =
     (case session of
        None \<Rightarrow> (Inl Unauthorized, db)
      | Some email \<Rightarrow>
          if email = [] then (Inl Unauthorized, db) else
          let validationErrors =
                validateAddressData (req_street body) (req_city body) (req_state body)
                  (req_zipCode body) (Some (countryOf body)) (Some (labelOf body))
          in if length validationErrors > 0
             then (Inl (ValidationFailure (join '', '' validationErrors)), db)
             else
               (case db email of
                  None \<Rightarrow> (Inl (NotFound ''User not found''), db)
                | Some addresses \<Rightarrow>
                    (case newAddressOf body newId of
                       None \<Rightarrow> (Inl InternalFailure, db)
                     | Some newAddress \<Rightarrow>
                         persist email db (save True (pushAddress addresses newAddress)))))"

text \<open>
  The parts of PUT that write: the partial field update at the index found, and the
  handling of the default flag (\<open>some\<close> over the other indices, then \<open>forEach\<close>
  clearing them, then the assignment at the index itself).
\<close>

definition updateFields :: "addressRequestBody \<Rightarrow> address \<Rightarrow> address" where
  "updateFields body a0 =
     (let a1 = (case req_street body of None \<Rightarrow> a0 | Some s \<Rightarrow> a0\<lparr>street := trim s\<rparr>);
          a2 = (case req_city body of None \<Rightarrow> a1 | Some s \<Rightarrow> a1\<lparr>city := trim s\<rparr>);
          a3 = (case req_state body of None \<Rightarrow> a2 | Some s \<Rightarrow> a2\<lparr>state := trim s\<rparr>);
          a4 = (case req_zipCode body of None \<Rightarrow> a3 | Some s \<Rightarrow> a3\<lparr>zipCode := trim s\<rparr>);
          a5 = (case req_country body of None \<Rightarrow> a4 | Some s \<Rightarrow> a4\<lparr>country := trim s\<rparr>);
          a6 = (case req_label body of None \<Rightarrow> a5 | Some l \<Rightarrow> a5\<lparr>label := l\<rparr>);
          a7 = (case req_phone body of None \<Rightarrow> a6 | Some p \<Rightarrow> a6\<lparr>phone := Some (trim p)\<rparr>)
      in a7)"

definition someOtherDefault :: "nat \<Rightarrow> address list \<Rightarrow> bool" where
  "someOtherDefault addressIndex as =
     list_ex (\<lambda>(idx, addr). idx \<noteq> addressIndex \<and> isDefault addr) (enumerate 0 as)"

definition clearOthers :: "nat \<Rightarrow> address list \<Rightarrow> address list" where
  "clearOthers addressIndex as =
     map (\<lambda>(idx, addr). if idx \<noteq> addressIndex then addr\<lparr>isDefault := False\<rparr> else addr)
       (enumerate 0 as)"

definition setDefault :: "nat \<Rightarrow> bool \<Rightarrow> address list \<Rightarrow> address list" where
  "setDefault addressIndex b as = as[addressIndex := (as ! addressIndex)\<lparr>isDefault := b\<rparr>]"

definition handleDefault :: "bool option \<Rightarrow> nat \<Rightarrow> address list \<Rightarrow> address list" where
  "handleDefault v addressIndex as =
     (case v of
        None \<Rightarrow> as
      | Some b \<Rightarrow>
          setDefault addressIndex b
            (if b \<and> someOtherDefault addressIndex as then clearOthers addressIndex as else as))"

text \<open>
  PUT. \<open>validId\<close> is \<open>mongoose.Types.ObjectId.isValid\<close>, a library predicate taken as
  a parameter. The hook's \<open>isModified('addresses')\<close> holds when an assignment has
  changed a value of the list.
\<close>

definition updateAddress ::
  "(string \<Rightarrow> bool) \<Rightarrow> string option \<Rightarrow> users \<Rightarrow> addressRequestBody \<Rightarrow> addressResponse" where
  "updateAddress validId session db body =
     (case session of
        None \<Rightarrow> (Inl Unauthorized, db)
      | Some email \<Rightarrow>
          if email = [] then (Inl Unauthorized, db) else
          (case req_addressId body of
             None \<Rightarrow> (Inl (ValidationFailure ''Address ID is required''), db)
           | Some addressId \<Rightarrow>
               if addressId = [] then (Inl (ValidationFailure ''Address ID is required''), db)
               else if validId addressId then
                 (case db email of
                    None \<Rightarrow> (Inl (NotFound ''User not found''), db)
                  | Some addresses \<Rightarrow>
                      (case findIndex (\<lambda>addr. addr_id addr = Some addressId) addresses of
                         None \<Rightarrow> (Inl (NotFound ''Address not found''), db)
                       | Some addressIndex \<Rightarrow>
                           let validationErrors =
                                 validateAddressData (req_street body) (req_city body)
                                   (req_state body) (req_zipCode body) (req_country body)
                                   (req_label body)
                           in if length validationErrors > 0
                              then (Inl (ValidationFailure (join '', '' validationErrors)), db)
                              else
                                let updated =
                                      addresses[addressIndex :=
                                        updateFields body (addresses ! addressIndex)];
                                    defaulted =
                                      handleDefault (req_isDefault body) addressIndex updated
                                in persist email db (save (defaulted \<noteq> addresses) defaulted)))
               else (Inl (ValidationFailure ''Invalid address ID format''), db)))"

text \<open>DELETE. The identifier is the query parameter \<open>id\<close>, \<open>None\<close> when absent.\<close>

definition removeAddress ::
  "(string \<Rightarrow> bool) \<Rightarrow> string option \<Rightarrow> users \<Rightarrow> string option \<Rightarrow> addressResponse" where
  "removeAddress validId session db idParam =
     (case session of
        None \<Rightarrow> (Inl Unauthorized, db)
      | Some email \<Rightarrow>
          if email = [] then (Inl Unauthorized, db) else
          (case idParam of
             None \<Rightarrow> (Inl (ValidationFailure ''Address ID is required''), db)
           | Some addressId \<Rightarrow>
               if addressId = [] then (Inl (ValidationFailure ''Address ID is required''), db)
               else if validId addressId then
                 (case db email of
                    None \<Rightarrow> (Inl (NotFound ''User not found''), db)
                  | Some addresses \<Rightarrow>
                      (case findIndex (\<lambda>addr. addr_id addr = Some addressId) addresses of
                         None \<Rightarrow> (Inl (NotFound ''Address not found''), db)
                       | Some addressIndex \<Rightarrow>
                           let wasDefault = isDefault (addresses ! addressIndex);
                               spliced = take addressIndex addresses @ drop (Suc addressIndex) addresses;
                               promoted =
                                 (if wasDefault \<and> length spliced > 0
                                  then spliced[0 := (spliced ! 0)\<lparr>isDefault := True\<rparr>]
                                  else spliced)
                           in persist email db (save True promoted)))
               else (Inl (ValidationFailure ''Invalid address ID format''), db)))"

text \<open>
  \<open>ObjectId.isValid\<close> on a string, as the driver's current releases implement it: 24
  hexadecimal digits.
\<close>

definition isHexDigit :: "char \<Rightarrow> bool" where
  "isHexDigit c = (c \<in> set ''0123456789abcdefABCDEF'')"

definition objectIdIsValid :: "string \<Rightarrow> bool" where
  "objectIdIsValid s = (length s = 24 \<and> list_all isHexDigit s)"

text \<open>
  The invariant of an address list: at most one address is flagged default, and exactly
  one when the list is not empty.
\<close>

definition defaults :: "address list \<Rightarrow> nat" where
  "defaults as = length (filter isDefault as)"

definition singleDefault :: "address list \<Rightarrow> bool" where
  "singleDefault as = (if as = [] then True else defaults as = 1)"

section \<open>Products\<close>

text \<open>
  \<open>IProduct\<close>, with the fields the handlers read or check; \<open>prod_id\<close> is the
  \<open>_id\<close> of the document. Prices are JSON numbers: only their sign and whether they are
  zero matter to the handlers, so they are real numbers here. The body of a request has
  every field optional.
\<close>

record product =
  prod_id :: string
  productId :: string
  name :: string
  description :: string
  price :: real
  category :: string
  rating :: real
  reviews :: real

record productBody =
  pb_productId :: "string option"
  pb_name :: "string option"
  pb_description :: "string option"
  pb_price :: "real option"
  pb_category :: "string option"
  pb_image :: "string option"
  pb_rating :: "real option"
  pb_reviews :: "real option"

text \<open>
  Truthiness of a value that may be \<open>undefined\<close>: a string is truthy when it is not
  empty, a number when it is not zero.
\<close>

definition truthyString :: "string option \<Rightarrow> bool" where
  "truthyString v = (case v of None \<Rightarrow> False | Some s \<Rightarrow> s \<noteq> [])"

definition truthyNumber :: "real option \<Rightarrow> bool" where
  "truthyNumber v = (case v of None \<Rightarrow> False | Some x \<Rightarrow> x \<noteq> 0)"

definition orZero :: "real option \<Rightarrow> real" where
  "orZero v = (case v of None \<Rightarrow> 0 | Some x \<Rightarrow> x)"

text \<open>
  POST of the product collection. The store is the list of product documents;
  \<open>newId\<close> is the \<open>_id\<close> the store gives the created document.
\<close>

definition createProduct ::
  "product list \<Rightarrow> productBody \<Rightarrow> string \<Rightarrow> (error + product) \<times> product list" where
  "createProduct products body newId =
     (if truthyString (pb_productId body) \<and> truthyString (pb_name body) \<and>
         truthyString (pb_description body) \<and> truthyNumber (pb_price body) \<and>
         truthyString (pb_category body) \<and> truthyString (pb_image body)
      then
        (case find (\<lambda>p. Some (productId p) = pb_productId body) products of
           Some existingProduct \<Rightarrow> (Inl (ValidationFailure ''Product ID already exists.''), products)
         | None \<Rightarrow>
             let created =
                   \<lparr>prod_id = newId, productId = the (pb_productId body),
                    name = the (pb_name body), description = the (pb_description body),
                    price = the (pb_price body), category = the (pb_category body),
                    rating = orZero (pb_rating body), reviews = orZero (pb_reviews body)\<rparr>
             in (Inr created, products @ [created]))
      else
        (Inl (ValidationFailure
          ''Missing required fields: productId, name, description, price, category, and image are required''),
         products))"

text \<open>
  PUT of one product. \<open>findByIdAndUpdate\<close> looks the document up by \<open>_id\<close> when
  the identifier is a valid object id, \<open>findOneAndUpdate\<close> by \<open>productId\<close> otherwise
  (the schema has no \<open>slug\<close> or \<open>sku\<close>). The update validators refuse an empty
  string for a required field, and the unique index on \<open>productId\<close> refuses a second
  document with the same value (error code 11000).
\<close>

definition mergeProduct :: "productBody \<Rightarrow> product \<Rightarrow> product" where
  "mergeProduct body p0 =
     (let p1 = (case pb_productId body of None \<Rightarrow> p0 | Some v \<Rightarrow> p0\<lparr>productId := v\<rparr>);
          p2 = (case pb_name body of None \<Rightarrow> p1 | Some v \<Rightarrow> p1\<lparr>name := v\<rparr>);
          p3 = (case pb_description body of None \<Rightarrow> p2 | Some v \<Rightarrow> p2\<lparr>description := v\<rparr>);
          p4 = (case pb_price body of None \<Rightarrow> p3 | Some v \<Rightarrow> p3\<lparr>price := v\<rparr>);
          p5 = (case pb_category body of None \<Rightarrow> p4 | Some v \<Rightarrow> p4\<lparr>category := v\<rparr>);
          p6 = (case pb_rating body of None \<Rightarrow> p5 | Some v \<Rightarrow> p5\<lparr>rating := v\<rparr>);
          p7 = (case pb_reviews body of None \<Rightarrow> p6 | Some v \<Rightarrow> p6\<lparr>reviews := v\<rparr>)
      in p7)"

definition nameMissing :: "string option \<Rightarrow> bool" where
  "nameMissing v = (case v of None \<Rightarrow> True | Some s \<Rightarrow> blank s)"

definition priceNegative :: "real option \<Rightarrow> bool" where
  "priceNegative v = (case v of None \<Rightarrow> False | Some x \<Rightarrow> x \<noteq> 0 \<and> x < 0)"

definition updateValid :: "productBody \<Rightarrow> bool" where
  "updateValid body =
     (pb_productId body \<noteq> Some [] \<and> pb_description body \<noteq> Some [] \<and>
      pb_category body \<noteq> Some [])"

definition updateProduct ::
  "(string \<Rightarrow> bool) \<Rightarrow> product list \<Rightarrow> string \<Rightarrow> productBody
    \<Rightarrow> (error + product) \<times> product list" where
  "updateProduct validId products ident body =
     (if ident = [] then (Inl (ValidationFailure ''Product identifier is required''), products)
      else if nameMissing (pb_name body)
      then (Inl (ValidationFailure ''Product name is required''), products)
      else if priceNegative (pb_price body)
      then (Inl (ValidationFailure ''Price cannot be negative''), products)
      else if updateValid body then
        (case findIndex
                (\<lambda>p. if validId ident then prod_id p = ident else productId p = ident)
                products of
           None \<Rightarrow> (Inl (NotFound ''Product not found''), products)
         | Some k \<Rightarrow>
             let updated = mergeProduct body (products ! k) in
             if list_ex (\<lambda>(j, p). j \<noteq> k \<and> productId p = productId updated)
                  (enumerate 0 products)
             then (Inl (Conflict ''Duplicate product ID, SKU, or slug''), products)
             else (Inr updated, products[k := updated]))
      else (Inl SchemaValidationFailure, products))"

section \<open>Orders\<close>

text \<open>
  Modelled from the spec: the Order schema (\<open>models/Order\<close>) is not among the sources.
  An order has a status, one of six values, and the time of its last status change is
  recorded apart from the time of its last update; \<open>orderNotes\<close> is the field \<open>notes\<close> the
  update handler reads. Times are milliseconds. The store maps the \<open>_id\<close> of an order
  to the order.
\<close>

record order =
  status :: string
  orderNotes :: "string option"
  updatedAt :: nat
  statusUpdatedAt :: "nat option"

record orderBody =
  ob_status :: "string option"
  ob_notes :: "string option"

definition validStatuses :: "string list" where
  "validStatuses =
     [''pending'', ''confirmed'', ''processing'', ''shipped'', ''delivered'', ''cancelled'']"

text \<open>
  PUT of one order. \<open>now\<close> and \<open>now'\<close> are the two readings of the clock, for
  \<open>updatedAt\<close> and for \<open>statusUpdatedAt\<close>. An empty status skips the handler's check
  as falsy; the validators of the update (\<open>runValidators\<close>) then refuse it, the status
  being one of six values.
\<close>

definition updateOrder ::
  "(string \<Rightarrow> bool) \<Rightarrow> (string \<rightharpoonup> order) \<Rightarrow> string \<Rightarrow> orderBody \<Rightarrow> nat \<Rightarrow> nat
    \<Rightarrow> (error + order) \<times> (string \<rightharpoonup> order)" where
  "updateOrder validId orders ident body now now' =
     (if validId ident then
        (case ob_status body of
           None \<Rightarrow>
             (case orders ident of
                None \<Rightarrow> (Inl (NotFound ''Order not found''), orders)
              | Some ord \<Rightarrow>
                  let ord' = ord\<lparr>orderNotes := (case ob_notes body of None \<Rightarrow> orderNotes ord | Some n \<Rightarrow> Some n),
                                   updatedAt := now\<rparr>
                  in (Inr ord', orders(ident \<mapsto> ord')))
         | Some st \<Rightarrow>
             if st = [] then (Inl SchemaValidationFailure, orders)
             else if st \<in> set validStatuses then
               (case orders ident of
                  None \<Rightarrow> (Inl (NotFound ''Order not found''), orders)
                | Some ord \<Rightarrow>
                    let ord' = ord\<lparr>status := st,
                                     orderNotes := (case ob_notes body of None \<Rightarrow> orderNotes ord | Some n \<Rightarrow> Some n),
                                     updatedAt := now, statusUpdatedAt := Some now'\<rparr>
                    in (Inr ord', orders(ident \<mapsto> ord')))
             else (Inl (ValidationFailure ''Invalid order status''), orders))
      else (Inl (ValidationFailure ''Invalid order ID''), orders))"

text \<open>
  DELETE of one order: the update is \<open>{ status: 'cancelled', updatedAt: new Date() }\<close>.
\<close>

definition cancelOrder ::
  "(string \<Rightarrow> bool) \<Rightarrow> (string \<rightharpoonup> order) \<Rightarrow> string \<Rightarrow> nat
    \<Rightarrow> (error + order) \<times> (string \<rightharpoonup> order)" where
  "cancelOrder validId orders ident now =
     (if validId ident then
        (case orders ident of
           None \<Rightarrow> (Inl (NotFound ''Order not found''), orders)
         | Some ord \<Rightarrow>
             let ord' = ord\<lparr>status := ''cancelled'', updatedAt := now\<rparr>
             in (Inr ord', orders(ident \<mapsto> ord')))
      else (Inl (ValidationFailure ''Invalid order ID''), orders))"

section \<open>Example data\<close>

text \<open>
  The two addresses of the scenarios: \<open>addrA\<close> is the default one, \<open>addrB\<close> is not.
  \<open>emptyBody\<close> is a request body with every field omitted.
\<close>

definition addrA :: address where
  "addrA = \<lparr>addr_id = Some ''64b000000000000000000a01'', street = ''12 Lake Road'',
     city = ''Dhaka'', state = ''Dhaka'', zipCode = ''1207'', country = ''Bangladesh'',
     isDefault = True, label = ''home'', phone = None\<rparr>"

definition addrB :: address where
  "addrB = \<lparr>addr_id = Some ''64b000000000000000000b02'', street = ''5 Mill Street'',
     city = ''Khulna'', state = ''Khulna'', zipCode = ''9100'', country = ''Bangladesh'',
     isDefault = False, label = ''work'', phone = None\<rparr>"

definition emptyBody :: addressRequestBody where
  "emptyBody = \<lparr>req_addressId = None, req_street = None, req_city = None,
     req_state = None, req_zipCode = None, req_country = None, req_isDefault = None,
     req_label = None, req_phone = None\<rparr>"

definition userEmail :: string where
  "userEmail = ''rina@example.com''"

text \<open>A first address asked not to be the default, and the address it is stored as.\<close>

definition firstBody :: addressRequestBody where
  "firstBody = emptyBody\<lparr>req_street := Some '' 7 Hill Lane '', req_city := Some ''Sylhet'',
     req_state := Some ''Sylhet'', req_zipCode := Some ''3100'', req_isDefault := Some False\<rparr>"

definition firstAddr :: address where
  "firstAddr = \<lparr>addr_id = Some ''64b000000000000000000c03'', street = ''7 Hill Lane'',
     city = ''Sylhet'', state = ''Sylhet'', zipCode = ''3100'', country = ''Bangladesh'',
     isDefault = True, label = ''home'', phone = Some []\<rparr>"

text \<open>The request that makes \<open>addrB\<close> the default.\<close>

definition moveBody :: addressRequestBody where
  "moveBody = emptyBody\<lparr>req_addressId := Some ''64b000000000000000000b02'',
     req_isDefault := Some True\<rparr>"

text \<open>
  A second address, sent without \<open>country\<close> and without \<open>isDefault\<close>, and the
  address it is stored as.
\<close>

definition secondBody :: addressRequestBody where
  "secondBody = emptyBody\<lparr>req_street := Some ''9 Canal Road'', req_city := Some ''Barisal'',
     req_state := Some ''Barisal'', req_zipCode := Some ''8200''\<rparr>"

definition secondAddr :: address where
  "secondAddr = \<lparr>addr_id = Some ''64b000000000000000000d04'', street = ''9 Canal Road'',
     city = ''Barisal'', state = ''Barisal'', zipCode = ''8200'', country = ''Bangladesh'',
     isDefault = False, label = ''home'', phone = Some []\<rparr>"

text \<open>A product, the body that creates it, and an order that has been shipped.\<close>

definition lampBody :: productBody where
  "lampBody = \<lparr>pb_productId = Some ''P-100'', pb_name = Some ''Desk lamp'',
     pb_description = Some ''A lamp for a desk'', pb_price = Some 25,
     pb_category = Some ''lighting'', pb_image = Some ''lamp.png'',
     pb_rating = None, pb_reviews = None\<rparr>"

definition lamp :: product where
  "lamp = \<lparr>prod_id = ''64c000000000000000000001'', productId = ''P-100'', name = ''Desk lamp'',
     description = ''A lamp for a desk'', price = 25, category = ''lighting'',
     rating = 0, reviews = 0\<rparr>"

definition shippedOrder :: order where
  "shippedOrder = \<lparr>status = ''shipped'', orderNotes = None, updatedAt = 1000,
     statusUpdatedAt = Some 1000\<rparr>"

section \<open>Properties of the address list\<close>

subsection \<open>Auxiliary facts\<close>

lemma findIndex_Some_iff:
  "findIndex p xs = Some i \<longleftrightarrow> i < length xs \<and> p (xs ! i) \<and> (\<forall>j<i. \<not> p (xs ! j))"
proof (induction xs arbitrary: i)
  case Nil
  show ?case by simp
next
  case (Cons x xs)
  show ?case
  proof (cases "p x")
    case True
    then show ?thesis by (cases i) auto
  next
    case False
    show ?thesis
    proof (cases i)
      case 0
      with False show ?thesis by auto
    next
      case (Suc m)
      have "(\<forall>j<Suc m. \<not> p ((x # xs) ! j)) \<longleftrightarrow> (\<forall>j<m. \<not> p (xs ! j))"
        using False by (auto simp: less_Suc_eq_0_disj)
      with Suc False Cons.IH [of m] show ?thesis by auto
    qed
  qed
qed

lemma findIndex_None_iff: "findIndex p xs = None \<longleftrightarrow> (\<forall>x\<in>set xs. \<not> p x)"
  by (induction xs) auto

lemma findIndex_filter_nonempty:
  "filter p xs \<noteq> [] \<Longrightarrow> \<exists>f. findIndex p xs = Some f"
  by (cases "findIndex p xs") (auto simp: findIndex_None_iff filter_empty_conv)

lemma preSave_loop:
  assumes f: "findIndex isDefault as = Some f" and k: "k \<le> length as"
  shows "length (fold preSaveStep [0..<k] as) = length as \<and>
         (\<forall>j<length as. fold preSaveStep [0..<k] as ! j =
             (if j < k then (as ! j)\<lparr>isDefault := (j = f)\<rparr> else as ! j))"
  using k
proof (induction k)
  case 0
  show ?case by simp
next
  case (Suc k)
  define cur where "cur = fold preSaveStep [0..<k] as"
  from Suc have len: "length cur = length as"
    and nth: "\<And>j. j < length as \<Longrightarrow> cur ! j = (if j < k then (as ! j)\<lparr>isDefault := (j = f)\<rparr> else as ! j)"
    by (simp_all add: cur_def)
  from f have fa: "f < length as" "isDefault (as ! f)" "\<And>j. j < f \<Longrightarrow> \<not> isDefault (as ! j)"
    by (simp_all add: findIndex_Some_iff)
  have "findIndex isDefault cur = Some f"
    unfolding findIndex_Some_iff using fa len nth by auto
  then have step: "preSaveStep k cur = cur[k := (cur ! k)\<lparr>isDefault := (k = f)\<rparr>]"
    by (simp add: preSaveStep_def eq_commute [of f k])
  have "fold preSaveStep [0..<Suc k] as = preSaveStep k cur"
    by (simp add: cur_def)
  with step have eq: "fold preSaveStep [0..<Suc k] as = cur[k := (cur ! k)\<lparr>isDefault := (k = f)\<rparr>]"
    by simp
  show ?case
    unfolding eq using len nth Suc.prems by (auto simp: nth_list_update less_Suc_eq)
qed

lemma filter_unique_nth:
  "f < length xs \<Longrightarrow> (\<And>j. j < length xs \<Longrightarrow> p (xs ! j) = (j = f)) \<Longrightarrow> filter p xs = [xs ! f]"
proof (induction xs arbitrary: f)
  case Nil
  then show ?case by simp
next
  case (Cons x xs)
  show ?case
  proof (cases f)
    case 0
    have px: "p x" using Cons.prems(2) [of 0] 0 by simp
    have "\<And>y. y \<in> set xs \<Longrightarrow> \<not> p y"
    proof -
      fix y assume "y \<in> set xs"
      then obtain j where "j < length xs" "xs ! j = y" by (auto simp: in_set_conv_nth)
      with Cons.prems(2) [of "Suc j"] 0 show "\<not> p y" by simp
    qed
    then have "filter p xs = []" by (simp add: filter_empty_conv)
    with px 0 show ?thesis by simp
  next
    case (Suc m)
    have npx: "\<not> p x" using Cons.prems(2) [of 0] Suc by simp
    have "filter p xs = [xs ! m]"
    proof (rule Cons.IH)
      show "m < length xs" using Cons.prems(1) Suc by simp
    next
      fix j assume "j < length xs"
      with Cons.prems(2) [of "Suc j"] Suc show "p (xs ! j) = (j = m)" by simp
    qed
    with npx Suc show ?thesis by simp
  qed
qed

lemma defaults_one_iff:
  "f < length as \<Longrightarrow> (\<And>j. j < length as \<Longrightarrow> isDefault (as ! j) = (j = f)) \<Longrightarrow> defaults as = 1"
  using filter_unique_nth [of f as isDefault] by (simp add: defaults_def)

lemma defaults_unique:
  "defaults as \<le> 1 \<Longrightarrow> i < length as \<Longrightarrow> j < length as \<Longrightarrow>
   isDefault (as ! i) \<Longrightarrow> isDefault (as ! j) \<Longrightarrow> i = j"
proof (induction as arbitrary: i j)
  case Nil
  then show ?case by simp
next
  case (Cons x xs)
  show ?case
  proof (cases "isDefault x")
    case True
    with Cons.prems(1) have "filter isDefault xs = []" by (simp add: defaults_def)
    then have none: "\<And>k. k < length xs \<Longrightarrow> \<not> isDefault (xs ! k)"
      by (simp add: filter_empty_conv)
    have "i = 0" using Cons.prems(2,4) none by (cases i) auto
    moreover have "j = 0" using Cons.prems(3,5) none by (cases j) auto
    ultimately show ?thesis by simp
  next
    case False
    with Cons.prems(1) have d: "defaults xs \<le> 1" by (simp add: defaults_def)
    from False Cons.prems(4) obtain i' where i: "i = Suc i'" by (cases i) auto
    from False Cons.prems(5) obtain j' where j: "j = Suc j'" by (cases j) auto
    from Cons.IH [OF d, of i' j'] Cons.prems i j show ?thesis by simp
  qed
qed

lemma isDefault_updateFields [simp]: "isDefault (updateFields body a) = isDefault a"
  by (simp add: updateFields_def Let_def split: option.splits)

lemma length_clearOthers [simp]: "length (clearOthers i as) = length as"
  by (simp add: clearOthers_def)

lemma nth_clearOthers:
  "j < length as \<Longrightarrow>
   clearOthers i as ! j = (if j \<noteq> i then (as ! j)\<lparr>isDefault := False\<rparr> else as ! j)"
  by (simp add: clearOthers_def nth_enumerate_eq)

lemma someOtherDefault_iff:
  "someOtherDefault i as \<longleftrightarrow> (\<exists>j<length as. j \<noteq> i \<and> isDefault (as ! j))"
  by (auto simp: someOtherDefault_def list_ex_iff in_set_enumerate_eq)

lemma defaults_zero_iff: "defaults as = 0 \<longleftrightarrow> (\<forall>j<length as. \<not> isDefault (as ! j))"
  by (simp add: defaults_def filter_empty_conv all_set_conv_all_nth)

lemma preSave_single: "defaults as \<le> 1 \<Longrightarrow> preSave m as = as"
  by (simp add: preSave_def defaults_def)


lemma persist_save_ok:
  "list_all schemaValid as \<Longrightarrow> defaults as \<le> 1 \<Longrightarrow>
   persist email db (save m as) = (Inr as, db(email \<mapsto> as))"
  by (simp add: persist_def save_def preSave_single)

lemma persist_save_Inr:
  "persist email db (save m as) = (Inr res, db') \<Longrightarrow>
   res = preSave m as \<and> db' = db(email \<mapsto> res)"
  by (auto simp: persist_def save_def split: if_splits)

lemma addAddress_Inr:
  "addAddress (Some email) db body newId = (Inr res, db') \<Longrightarrow>
   \<exists>as a. db email = Some as \<and> newAddressOf body newId = Some a \<and>
          persist email db (save True (pushAddress as a)) = (Inr res, db')"
  by (auto simp: addAddress_def Let_def split: option.splits if_splits)

lemma newAddressOf_id: "newAddressOf body newId = Some a \<Longrightarrow> addr_id a = Some newId"
  by (auto simp: newAddressOf_def split: option.splits)

lemma updateAddress_Inr:
  assumes "updateAddress validId (Some email) db body = (Inr res, db')"
    and "db email = Some as" and "req_addressId body = Some aid"
    and "findIndex (\<lambda>a. addr_id a = Some aid) as = Some i"
  shows "persist email db
           (save (handleDefault (req_isDefault body) i (as[i := updateFields body (as ! i)]) \<noteq> as)
              (handleDefault (req_isDefault body) i (as[i := updateFields body (as ! i)])))
         = (Inr res, db')"
  using assms by (auto simp: updateAddress_def Let_def split: if_splits)

lemma defaults_list_update_same:
  "isDefault a = isDefault (as ! i) \<Longrightarrow> defaults (as[i := a]) = defaults as"
proof (induction as arbitrary: i)
  case Nil
  show ?case by simp
next
  case (Cons x xs)
  then show ?case by (cases i) (auto simp: defaults_def)
qed

lemma removeAddress_Inr:
  assumes "removeAddress validId (Some email) db (Some aid) = (Inr res, db')"
    and "db email = Some as"
    and "findIndex (\<lambda>a. addr_id a = Some aid) as = Some i"
  shows "persist email db
           (save True
              (if isDefault (as ! i) \<and> length (take i as @ drop (Suc i) as) > 0
               then (take i as @ drop (Suc i) as)
                      [0 := ((take i as @ drop (Suc i) as) ! 0)\<lparr>isDefault := True\<rparr>]
               else take i as @ drop (Suc i) as))
         = (Inr res, db')"
  using assms by (auto simp: removeAddress_def Let_def split: if_splits)

lemma defaults_append: "defaults (xs @ ys) = defaults xs + defaults ys"
  by (simp add: defaults_def)

lemma defaults_Cons: "defaults (x # xs) = (if isDefault x then 1 else 0) + defaults xs"
  by (simp add: defaults_def)

lemma defaults_splice:
  assumes "i < length as" and "isDefault (as ! i)"
  shows "defaults as = Suc (defaults (take i as @ drop (Suc i) as))"
proof -
  have "as = take i as @ as ! i # drop (Suc i) as"
    using assms(1) by (simp add: id_take_nth_drop)
  then have "defaults as = defaults (take i as @ as ! i # drop (Suc i) as)" by simp
  also have "\<dots> = Suc (defaults (take i as @ drop (Suc i) as))"
    using assms(2) by (simp add: defaults_append defaults_Cons)
  finally show ?thesis .
qed

subsection \<open>The pre-save hook\<close>

text \<open>
  Claim C7. When the list about to be saved is modified and more than one of its addresses
  is flagged default, the hook leaves the flag on the first flagged address only: the
  list keeps its length, every address keeps its other fields, the address at index
  \<open>j\<close> is flagged exactly when \<open>j\<close> is the index of the first flagged address of the
  list before the hook, and a single default remains.
\<close>

theorem preSave_keeps_first_default:
  assumes "defaults as > 1"
  shows "\<exists>f. findIndex isDefault as = Some f \<and>
             length (preSave True as) = length as \<and>
             (\<forall>j<length as. preSave True as ! j = (as ! j)\<lparr>isDefault := (j = f)\<rparr>) \<and>
             defaults (preSave True as) = 1"
proof -
  from assms have ne: "filter isDefault as \<noteq> []" by (auto simp: defaults_def)
  then obtain f where f: "findIndex isDefault as = Some f"
    using findIndex_filter_nonempty by blast
  then have fl: "f < length as" by (simp add: findIndex_Some_iff)
  from assms have ps: "preSave True as = fold preSaveStep [0..<length as] as"
    by (simp add: preSave_def defaults_def)
  from preSave_loop [OF f order_refl]
  have len: "length (preSave True as) = length as"
    and nth: "\<forall>j<length as. preSave True as ! j = (as ! j)\<lparr>isDefault := (j = f)\<rparr>"
    unfolding ps by simp_all
  have "defaults (preSave True as) = 1"
    by (rule defaults_one_iff [of f]) (use len nth fl in auto)
  with f len nth show ?thesis by blast
qed

theorem preSave_keeps_first_default_witness:
  "1 < defaults [addrB, addrA, addrB\<lparr>isDefault := True\<rparr>] \<and>
   findIndex isDefault [addrB, addrA, addrB\<lparr>isDefault := True\<rparr>] = Some 1 \<and>
   preSave True [addrB, addrA, addrB\<lparr>isDefault := True\<rparr>] = [addrB, addrA, addrB]"
proof -
  let ?as = "[addrB, addrA, addrB\<lparr>isDefault := True\<rparr>]"
  have h: "1 < defaults ?as" by (simp add: defaults_def addrA_def addrB_def)
  have f: "findIndex isDefault ?as = Some 1" by (simp add: addrA_def addrB_def)
  from preSave_keeps_first_default [OF h] f
  have len: "length (preSave True ?as) = 3"
    and nth: "\<forall>j<3. preSave True ?as ! j = (?as ! j)\<lparr>isDefault := (j = 1)\<rparr>"
    by auto
  have "preSave True ?as = [addrB, addrA, addrB]"
  proof (rule nth_equalityI)
    show "length (preSave True ?as) = length [addrB, addrA, addrB]" using len by simp
  next
    fix j assume "j < length (preSave True ?as)"
    with len have "j = 0 \<or> j = 1 \<or> j = 2" by auto
    with nth show "preSave True ?as ! j = [addrB, addrA, addrB] ! j"
      by (auto simp: addrA_def addrB_def)
  qed
  with h f show ?thesis by simp
qed

subsection \<open>Adding the first address\<close>

text \<open>
  Claim C4. When the user has no address, every call of \<open>addAddress\<close> that succeeds
  stores exactly one address, the new one, flagged default, whatever the request says
  about \<open>isDefault\<close> (true, false or nothing).
\<close>

theorem addAddress_first_forced_default:
  assumes "db email = Some []"
    and "addAddress (Some email) db body newId = (Inr res, db')"
  shows "\<exists>a. res = [a] \<and> isDefault a \<and> addr_id a = Some newId \<and> db' email = Some [a]"
proof -
  from addAddress_Inr [OF assms(2)] assms(1) obtain a where
    a: "newAddressOf body newId = Some a"
    and sv: "persist email db (save True (pushAddress [] a)) = (Inr res, db')"
    by auto
  have "preSave True (pushAddress [] a) = [a\<lparr>isDefault := True\<rparr>]"
    by (simp add: pushAddress_def preSave_def)
  with persist_save_Inr [OF sv] newAddressOf_id [OF a] show ?thesis by simp
qed

theorem addAddress_first_forced_default_witness:
  "[userEmail \<mapsto> []] userEmail = Some [] \<and>
   addAddress (Some userEmail) [userEmail \<mapsto> []] firstBody ''64b000000000000000000c03''
     = (Inr [firstAddr], [userEmail \<mapsto> [firstAddr]]) \<and>
   (\<exists>a. [firstAddr] = [a] \<and> isDefault a \<and> addr_id a = Some ''64b000000000000000000c03'' \<and>
        [userEmail \<mapsto> [firstAddr]] userEmail = Some [a])"
proof -
  have h1: "[userEmail \<mapsto> []] userEmail = Some []" by simp
  have h2: "addAddress (Some userEmail) [userEmail \<mapsto> []] firstBody ''64b000000000000000000c03''
     = (Inr [firstAddr], [userEmail \<mapsto> [firstAddr]])"
    by (simp add: addAddress_def firstBody_def emptyBody_def userEmail_def firstAddr_def
        validateAddressData_def blank_def trim_def isSpace_def digitsOnly_def isDigit_def
        countryOf_def labelOf_def phoneOf_def isDefaultOf_def newAddressOf_def
        pushAddress_def persist_def save_def schemaValid_def preSave_def Let_def)
  from addAddress_first_forced_default [OF h1 h2] h1 h2 show ?thesis by simp
qed

subsection \<open>Moving the default\<close>

text \<open>
  Claim C2. The list has exactly one default address, at index \<open>d\<close>, and
  \<open>updateAddress\<close> succeeds on another address, at index \<open>i\<close>, with
  \<open>isDefault = true\<close>. Then the flag is cleared at \<open>d\<close>, set at \<open>i\<close>, and every
  other address is as before. The handler clears before it sets: the list after the
  field update has one default, the list between the clearing and the setting has none,
  the list saved and returned has one. No list the handler holds has two.
\<close>

theorem updateAddress_moves_default:
  assumes db: "db email = Some as"
    and aid: "req_addressId body = Some aid"
    and idx: "findIndex (\<lambda>a. addr_id a = Some aid) as = Some i"
    and flag: "req_isDefault body = Some True"
    and one: "defaults as = 1" and d: "d < length as" "isDefault (as ! d)" and diff: "i \<noteq> d"
    and ok: "updateAddress validId (Some email) db body = (Inr res, db')"
  shows "res = setDefault i True (clearOthers i (as[i := updateFields body (as ! i)])) \<and>
         db' email = Some res \<and>
         length res = length as \<and>
         res ! i = (updateFields body (as ! i))\<lparr>isDefault := True\<rparr> \<and>
         res ! d = (as ! d)\<lparr>isDefault := False\<rparr> \<and>
         (\<forall>j<length as. j \<noteq> i \<longrightarrow> j \<noteq> d \<longrightarrow> res ! j = as ! j) \<and>
         defaults (as[i := updateFields body (as ! i)]) = 1 \<and>
         defaults (clearOthers i (as[i := updateFields body (as ! i)])) = 0 \<and>
         defaults res = 1"
proof -
  define u where "u = as[i := updateFields body (as ! i)]"
  define c where "c = clearOthers i u"
  define r where "r = setDefault i True c"
  from idx have i: "i < length as" by (simp add: findIndex_Some_iff)
  have uniq: "\<And>j. j < length as \<Longrightarrow> isDefault (as ! j) \<Longrightarrow> j = d"
    using defaults_unique [of as _ d] one d by simp
  have lu: "length u = length as" by (simp add: u_def)
  have nu: "\<And>j. j < length as \<Longrightarrow> u ! j = (if j = i then updateFields body (as ! i) else as ! j)"
    by (simp add: u_def nth_list_update)
  have du: "defaults u = 1" unfolding u_def using one
    by (simp add: defaults_list_update_same)
  have "someOtherDefault i u"
    unfolding someOtherDefault_iff using d diff lu nu by (intro exI [of _ d]) auto
  with flag have hd: "handleDefault (req_isDefault body) i u = r"
    by (simp add: handleDefault_def r_def c_def)
  have lc: "length c = length as" by (simp add: c_def lu)
  have nc: "\<And>j. j < length as \<Longrightarrow> c ! j = (if j \<noteq> i then (u ! j)\<lparr>isDefault := False\<rparr> else u ! j)"
    by (simp add: c_def nth_clearOthers lu)
  have ndi: "\<not> isDefault (as ! i)" using uniq [OF i] diff by auto
  have dc: "defaults c = 0"
    unfolding defaults_zero_iff using lc nc nu ndi by auto
  have lr: "length r = length as" by (simp add: r_def setDefault_def lc)
  have nr: "\<And>j. j < length as \<Longrightarrow>
      r ! j = (if j = i then (updateFields body (as ! i))\<lparr>isDefault := True\<rparr>
               else (as ! j)\<lparr>isDefault := False\<rparr>)"
    using i by (simp add: r_def setDefault_def nth_list_update lc nc nu)
  have dr: "defaults r = 1"
    by (rule defaults_one_iff [of i]) (use i lr nr in auto)
  have "persist email db (save (r \<noteq> as) r) = (Inr res, db')"
    using updateAddress_Inr [OF ok db aid idx] hd unfolding u_def by simp
  from persist_save_Inr [OF this] dr have res: "res = r" and db': "db' = db(email \<mapsto> res)"
    by (simp_all add: preSave_single)
  have others: "\<forall>j<length as. j \<noteq> i \<longrightarrow> j \<noteq> d \<longrightarrow> res ! j = as ! j"
  proof (intro allI impI)
    fix j assume j: "j < length as" "j \<noteq> i" "j \<noteq> d"
    then have "\<not> isDefault (as ! j)" using uniq by blast
    then have "(as ! j)\<lparr>isDefault := False\<rparr> = as ! j" by simp
    with j nr show "res ! j = as ! j" by (simp add: res)
  qed
  from res db' lr nr i d diff du dc dr others show ?thesis
    by (simp add: r_def c_def u_def)
qed

theorem updateAddress_moves_default_witness:
  "updateAddress objectIdIsValid (Some userEmail) [userEmail \<mapsto> [addrA, addrB]] moveBody
     = (Inr [addrA\<lparr>isDefault := False\<rparr>, addrB\<lparr>isDefault := True\<rparr>],
        [userEmail \<mapsto> [addrA\<lparr>isDefault := False\<rparr>, addrB\<lparr>isDefault := True\<rparr>]]) \<and>
   defaults [addrA, addrB] = 1 \<and>
   defaults [addrA\<lparr>isDefault := False\<rparr>, addrB\<lparr>isDefault := True\<rparr>] = 1"
proof -
  let ?db = "[userEmail \<mapsto> [addrA, addrB]]"
  let ?res = "[addrA\<lparr>isDefault := False\<rparr>, addrB\<lparr>isDefault := True\<rparr>]"
  have db: "?db userEmail = Some [addrA, addrB]" by simp
  have aid: "req_addressId moveBody = Some ''64b000000000000000000b02''"
    by (simp add: moveBody_def emptyBody_def)
  have idx: "findIndex (\<lambda>a. addr_id a = Some ''64b000000000000000000b02'') [addrA, addrB] = Some 1"
    by (simp add: addrA_def addrB_def)
  have flag: "req_isDefault moveBody = Some True" by (simp add: moveBody_def emptyBody_def)
  have one: "defaults [addrA, addrB] = 1" by (simp add: defaults_def addrA_def addrB_def)
  have d: "0 < length [addrA, addrB]" "isDefault ([addrA, addrB] ! 0)" by (simp_all add: addrA_def)
  have diff: "(1::nat) \<noteq> 0" by simp
  have ok: "updateAddress objectIdIsValid (Some userEmail) ?db moveBody = (Inr ?res, ?db(userEmail \<mapsto> ?res))"
    by (simp add: updateAddress_def moveBody_def emptyBody_def userEmail_def addrA_def
        addrB_def validateAddressData_def objectIdIsValid_def isHexDigit_def
        updateFields_def handleDefault_def someOtherDefault_def clearOthers_def
        setDefault_def persist_def save_def schemaValid_def preSave_def Let_def
        defaults_def)
  from updateAddress_moves_default [OF db aid idx flag one d diff ok]
  have "defaults ?res = 1" by blast
  with ok one show ?thesis by simp
qed

subsection \<open>Removing the default\<close>

text \<open>
  Claim C3. The list has exactly one default address and \<open>removeAddress\<close> succeeds on
  it. Then the list returned and stored is the list without that address, with its
  first address flagged default and every other address as before; when nothing
  remains the list is empty and has no default, otherwise it has exactly one.
\<close>

theorem removeAddress_promotes_first:
  assumes db: "db email = Some as"
    and idx: "findIndex (\<lambda>a. addr_id a = Some aid) as = Some i"
    and wasDefault: "isDefault (as ! i)"
    and one: "defaults as = 1"
    and ok: "removeAddress validId (Some email) db (Some aid) = (Inr res, db')"
  shows "res = (case take i as @ drop (Suc i) as of
                  [] \<Rightarrow> []
                | a # rest \<Rightarrow> a\<lparr>isDefault := True\<rparr> # rest) \<and>
         db' email = Some res \<and>
         defaults res = (if res = [] then 0 else 1)"
proof -
  define spliced where "spliced = take i as @ drop (Suc i) as"
  from idx have i: "i < length as" by (simp add: findIndex_Some_iff)
  from defaults_splice [OF i wasDefault] one have none: "defaults spliced = 0"
    by (simp add: spliced_def)
  define promoted where
    "promoted = (case spliced of [] \<Rightarrow> [] | a # rest \<Rightarrow> a\<lparr>isDefault := True\<rparr> # rest)"
  have dp: "defaults promoted = (if promoted = [] then 0 else 1)"
    using none by (cases spliced) (simp_all add: promoted_def defaults_Cons)
  have eq: "(if isDefault (as ! i) \<and> length spliced > 0
             then spliced[0 := (spliced ! 0)\<lparr>isDefault := True\<rparr>] else spliced) = promoted"
    using wasDefault by (cases spliced) (simp_all add: promoted_def)
  from removeAddress_Inr [OF ok db idx]
  have "persist email db (save True promoted) = (Inr res, db')"
    unfolding spliced_def [symmetric] eq .
  from persist_save_Inr [OF this] dp have "res = promoted" "db' = db(email \<mapsto> res)"
    by (simp_all add: preSave_single)
  with dp show ?thesis by (simp add: promoted_def spliced_def)
qed

theorem removeAddress_promotes_first_witness:
  "removeAddress objectIdIsValid (Some userEmail) [userEmail \<mapsto> [addrA, addrB]]
       (Some ''64b000000000000000000a01'')
     = (Inr [addrB\<lparr>isDefault := True\<rparr>], [userEmail \<mapsto> [addrB\<lparr>isDefault := True\<rparr>]]) \<and>
   defaults [addrA, addrB] = 1 \<and> defaults [addrB\<lparr>isDefault := True\<rparr>] = 1"
proof -
  let ?db = "[userEmail \<mapsto> [addrA, addrB]]"
  let ?res = "[addrB\<lparr>isDefault := True\<rparr>]"
  have db: "?db userEmail = Some [addrA, addrB]" by simp
  have idx: "findIndex (\<lambda>a. addr_id a = Some ''64b000000000000000000a01'') [addrA, addrB] = Some 0"
    by (simp add: addrA_def)
  have wasDefault: "isDefault ([addrA, addrB] ! 0)" by (simp add: addrA_def)
  have one: "defaults [addrA, addrB] = 1" by (simp add: defaults_def addrA_def addrB_def)
  have ok: "removeAddress objectIdIsValid (Some userEmail) ?db (Some ''64b000000000000000000a01'')
      = (Inr ?res, ?db(userEmail \<mapsto> ?res))"
    by (simp add: removeAddress_def userEmail_def addrA_def addrB_def objectIdIsValid_def
        isHexDigit_def persist_def save_def schemaValid_def preSave_def Let_def)
  from removeAddress_promotes_first [OF db idx wasDefault one ok]
  have "defaults ?res = (if ?res = [] then 0 else 1)" by blast
  then have "defaults ?res = 1" by simp
  with ok one show ?thesis by simp
qed

subsection \<open>Identifiers that name no address\<close>

text \<open>
  Claim C5, as the claim states it, fails: an identifier that is not a valid object id
  names no address of the list, and both handlers answer it with status 400
  (\<open>Invalid address ID format\<close>) before they look at the list, not with NotFound.
\<close>

theorem malformed_addressId_counterexample:
  "findIndex (\<lambda>a. addr_id a = Some ''abc'') [addrA, addrB] = None \<and>
   updateAddress objectIdIsValid (Some userEmail) [userEmail \<mapsto> [addrA, addrB]]
       (emptyBody\<lparr>req_addressId := Some ''abc''\<rparr>)
     = (Inl (ValidationFailure ''Invalid address ID format''), [userEmail \<mapsto> [addrA, addrB]]) \<and>
   removeAddress objectIdIsValid (Some userEmail) [userEmail \<mapsto> [addrA, addrB]] (Some ''abc'')
     = (Inl (ValidationFailure ''Invalid address ID format''), [userEmail \<mapsto> [addrA, addrB]])"
  by (simp add: updateAddress_def removeAddress_def emptyBody_def userEmail_def addrA_def
      addrB_def objectIdIsValid_def)

text \<open>
  Claim C5, amended. For an authenticated user and an identifier that names no address
  of the user's list, \<open>updateAddress\<close> and \<open>removeAddress\<close> fail and leave the store
  as it is: with NotFound when the identifier is a valid object id, with status 400
  when it is empty or not a valid object id.
\<close>

theorem absent_addressId_rejected:
  assumes "email \<noteq> []" and "db email = Some as"
    and "findIndex (\<lambda>a. addr_id a = Some aid) as = None"
  shows "updateAddress validId (Some email) db (body\<lparr>req_addressId := Some aid\<rparr>)
           = (Inl (if aid = [] then ValidationFailure ''Address ID is required''
                   else if validId aid then NotFound ''Address not found''
                   else ValidationFailure ''Invalid address ID format''), db) \<and>
         removeAddress validId (Some email) db (Some aid)
           = (Inl (if aid = [] then ValidationFailure ''Address ID is required''
                   else if validId aid then NotFound ''Address not found''
                   else ValidationFailure ''Invalid address ID format''), db)"
  using assms by (simp add: updateAddress_def removeAddress_def)

theorem absent_addressId_rejected_witness:
  "findIndex (\<lambda>a. addr_id a = Some ''64b000000000000000000c03'') [addrA, addrB] = None \<and>
   updateAddress objectIdIsValid (Some userEmail) [userEmail \<mapsto> [addrA, addrB]]
       (moveBody\<lparr>req_addressId := Some ''64b000000000000000000c03''\<rparr>)
     = (Inl (NotFound ''Address not found''), [userEmail \<mapsto> [addrA, addrB]]) \<and>
   removeAddress objectIdIsValid (Some userEmail) [userEmail \<mapsto> [addrA, addrB]]
       (Some ''64b000000000000000000c03'')
     = (Inl (NotFound ''Address not found''), [userEmail \<mapsto> [addrA, addrB]])"
proof -
  have e: "userEmail \<noteq> []" by (simp add: userEmail_def)
  have db: "[userEmail \<mapsto> [addrA, addrB]] userEmail = Some [addrA, addrB]" by simp
  have idx: "findIndex (\<lambda>a. addr_id a = Some ''64b000000000000000000c03'') [addrA, addrB] = None"
    by (simp add: addrA_def addrB_def)
  have v: "objectIdIsValid ''64b000000000000000000c03''"
    by (simp add: objectIdIsValid_def isHexDigit_def)
  from absent_addressId_rejected [where email = userEmail
      and db = "[userEmail \<mapsto> [addrA, addrB]]" and as = "[addrA, addrB]"
      and aid = "''64b000000000000000000c03''" and validId = objectIdIsValid
      and body = moveBody, OF e db idx] v idx
  show ?thesis by simp
qed

subsection \<open>Validation of a new address\<close>

text \<open>
  Claim C6, as the claim states it, fails: a request that omits \<open>country\<close> is not
  refused. The destructuring gives the field its default value and the address is
  appended.
\<close>

theorem omitted_country_counterexample:
  "req_country secondBody = None \<and>
   addAddress (Some userEmail) [userEmail \<mapsto> [addrA]] secondBody ''64b000000000000000000d04''
     = (Inr [addrA, secondAddr], [userEmail \<mapsto> [addrA, secondAddr]])"
  by (simp add: addAddress_def secondBody_def secondAddr_def emptyBody_def userEmail_def
      addrA_def validateAddressData_def blank_def trim_def isSpace_def digitsOnly_def
      isDigit_def countryOf_def labelOf_def phoneOf_def isDefaultOf_def newAddressOf_def
      pushAddress_def persist_def save_def schemaValid_def preSave_def Let_def)

text \<open>
  Claim C6, amended. For an authenticated user, a request of \<open>addAddress\<close> in which a
  field that is sent is malformed (a \<open>street\<close>, \<open>city\<close>, \<open>state\<close>,
  \<open>zipCode\<close> or \<open>country\<close> that is empty or blank, a zip code that after trimming is
  not made of digits only, a \<open>label\<close> outside the enumeration) fails with
  ValidationFailure and leaves the store as it is.
\<close>

theorem addAddress_rejects_malformed:
  assumes "email \<noteq> []"
    and "(\<exists>s. req_street body = Some s \<and> blank s) \<or>
         (\<exists>s. req_city body = Some s \<and> blank s) \<or>
         (\<exists>s. req_state body = Some s \<and> blank s) \<or>
         (\<exists>s. req_zipCode body = Some s \<and> (blank s \<or> \<not> digitsOnly (trim s))) \<or>
         (\<exists>s. req_country body = Some s \<and> blank s) \<or>
         (\<exists>l. req_label body = Some l \<and> l \<notin> set [''home'', ''work'', ''other''])"
  shows "\<exists>msg. addAddress (Some email) db body newId = (Inl (ValidationFailure msg), db)"
proof -
  have "validateAddressData (req_street body) (req_city body) (req_state body)
          (req_zipCode body) (Some (countryOf body)) (Some (labelOf body)) \<noteq> []"
    using assms(2)
    by (auto simp: validateAddressData_def countryOf_def labelOf_def split: if_splits)
  with assms(1) show ?thesis by (simp add: addAddress_def Let_def)
qed

theorem addAddress_rejects_malformed_witness:
  "addAddress (Some userEmail) [userEmail \<mapsto> [addrA]]
      (secondBody\<lparr>req_zipCode := Some ''12A45''\<rparr>) ''64b000000000000000000d04''
     = (Inl (ValidationFailure ''ZIP code must contain only numbers''), [userEmail \<mapsto> [addrA]])"
proof -
  have e: "userEmail \<noteq> []" by (simp add: userEmail_def)
  have z: "req_zipCode (secondBody\<lparr>req_zipCode := Some ''12A45''\<rparr>) = Some ''12A45'' \<and>
           (blank ''12A45'' \<or> \<not> digitsOnly (trim ''12A45''))"
    by (simp add: blank_def trim_def isSpace_def digitsOnly_def isDigit_def)
  then have bad: "(\<exists>s. req_street (secondBody\<lparr>req_zipCode := Some ''12A45''\<rparr>) = Some s \<and> blank s) \<or>
         (\<exists>s. req_city (secondBody\<lparr>req_zipCode := Some ''12A45''\<rparr>) = Some s \<and> blank s) \<or>
         (\<exists>s. req_state (secondBody\<lparr>req_zipCode := Some ''12A45''\<rparr>) = Some s \<and> blank s) \<or>
         (\<exists>s. req_zipCode (secondBody\<lparr>req_zipCode := Some ''12A45''\<rparr>) = Some s \<and> (blank s \<or> \<not> digitsOnly (trim s))) \<or>
         (\<exists>s. req_country (secondBody\<lparr>req_zipCode := Some ''12A45''\<rparr>) = Some s \<and> blank s) \<or>
         (\<exists>l. req_label (secondBody\<lparr>req_zipCode := Some ''12A45''\<rparr>) = Some l \<and> l \<notin> set [''home'', ''work'', ''other''])"
    by blast
  from addAddress_rejects_malformed [OF e bad, of "[userEmail \<mapsto> [addrA]]" "''64b000000000000000000d04''"]
  obtain msg where m: "addAddress (Some userEmail) [userEmail \<mapsto> [addrA]]
      (secondBody\<lparr>req_zipCode := Some ''12A45''\<rparr>) ''64b000000000000000000d04''
     = (Inl (ValidationFailure msg), [userEmail \<mapsto> [addrA]])" by blast
  have "fst (addAddress (Some userEmail) [userEmail \<mapsto> [addrA]]
      (secondBody\<lparr>req_zipCode := Some ''12A45''\<rparr>) ''64b000000000000000000d04'')
     = Inl (ValidationFailure ''ZIP code must contain only numbers'')"
    by (simp add: addAddress_def secondBody_def emptyBody_def userEmail_def
        validateAddressData_def blank_def trim_def isSpace_def digitsOnly_def isDigit_def
        countryOf_def labelOf_def Let_def)
  with m show ?thesis by simp
qed

text \<open>
  An omitted \<open>street\<close> is not caught by the validation: the handler fails with status
  500, and the store is left as it is.
\<close>

lemma addAddress_omitted_street:
  "addAddress (Some userEmail) [userEmail \<mapsto> [addrA]]
      (secondBody\<lparr>req_street := None\<rparr>) ''64b000000000000000000d04''
     = (Inl InternalFailure, [userEmail \<mapsto> [addrA]])"
  by (simp add: addAddress_def secondBody_def emptyBody_def userEmail_def
      validateAddressData_def blank_def trim_def isSpace_def digitsOnly_def
      isDigit_def countryOf_def labelOf_def newAddressOf_def Let_def)

subsection \<open>The invariant under the three operations\<close>

text \<open>
  Claim C1 at the input where the code breaks it. The list \<open>[addrA]\<close> satisfies the
  invariant; \<open>updateAddress\<close> on \<open>addrA\<close> with \<open>isDefault = false\<close> succeeds and
  stores a list that is not empty and has no default address.
\<close>

theorem updateAddress_unsets_only_default:
  "singleDefault [addrA] \<and>
   updateAddress objectIdIsValid (Some userEmail) [userEmail \<mapsto> [addrA]]
       (emptyBody\<lparr>req_addressId := Some ''64b000000000000000000a01'',
                   req_isDefault := Some False\<rparr>)
     = (Inr [addrA\<lparr>isDefault := False\<rparr>], [userEmail \<mapsto> [addrA\<lparr>isDefault := False\<rparr>]]) \<and>
   \<not> singleDefault [addrA\<lparr>isDefault := False\<rparr>]"
  by (simp add: singleDefault_def defaults_def updateAddress_def emptyBody_def userEmail_def
      addrA_def validateAddressData_def objectIdIsValid_def isHexDigit_def updateFields_def
      handleDefault_def someOtherDefault_def setDefault_def persist_def save_def
      schemaValid_def preSave_def Let_def)

text \<open>
  What the three operations do keep. From a list with at most one default address,
  every successful \<open>updateAddress\<close> leaves at most one. \<open>addAddress\<close> and
  \<open>removeAddress\<close> keep the whole invariant, and so does \<open>updateAddress\<close> unless it
  is sent \<open>isDefault = false\<close> for the default address.
\<close>

lemma defaults_setDefault:
  "i < length as \<Longrightarrow>
   defaults (setDefault i b as) + (if isDefault (as ! i) then 1 else 0)
     = defaults as + (if b then 1 else 0)"
proof (induction as arbitrary: i)
  case Nil
  then show ?case by simp
next
  case (Cons x xs)
  show ?case
  proof (cases i)
    case 0
    then show ?thesis by (simp add: setDefault_def defaults_def)
  next
    case (Suc k)
    with Cons.prems have "k < length xs" by simp
    from Cons.IH [OF this]
    have ih: "defaults (setDefault k b xs) + (if isDefault (xs ! k) then 1 else 0)
                = defaults xs + (if b then 1 else 0)" .
    have "setDefault (Suc k) b (x # xs) = x # setDefault k b xs"
      by (simp add: setDefault_def)
    with ih Suc show ?thesis by (simp add: defaults_Cons)
  qed
qed

lemma defaults_clearOthers:
  "i < length as \<Longrightarrow> defaults (clearOthers i as) = (if isDefault (as ! i) then 1 else 0)"
proof (cases "isDefault (as ! i)")
  case True
  assume i: "i < length as"
  have "defaults (clearOthers i as) = 1"
    by (rule defaults_one_iff [of i]) (use i True in \<open>auto simp: nth_clearOthers\<close>)
  with True show ?thesis by simp
next
  case False
  assume i: "i < length as"
  have "defaults (clearOthers i as) = 0"
    unfolding defaults_zero_iff using i False by (auto simp: nth_clearOthers)
  with False show ?thesis by simp
qed

lemma defaults_map_clear: "defaults (map (\<lambda>addr. addr\<lparr>isDefault := False\<rparr>) as) = 0"
  by (simp add: defaults_def filter_empty_conv)

lemma defaults_pushAddress:
  "singleDefault as \<Longrightarrow> defaults (pushAddress as a) = 1"
  by (cases "as = []")
     (auto simp: pushAddress_def singleDefault_def Let_def defaults_append defaults_Cons
        defaults_map_clear defaults_def)

lemma pushAddress_nonempty: "pushAddress as a \<noteq> []"
  by (simp add: pushAddress_def Let_def)

lemma addAddress_keeps_invariant:
  assumes "singleDefault as" and "db email = Some as"
    and "addAddress (Some email) db body newId = (Inr res, db')"
  shows "singleDefault res"
proof -
  from addAddress_Inr [OF assms(3)] assms(2) obtain a where
    "persist email db (save True (pushAddress as a)) = (Inr res, db')" by auto
  from persist_save_Inr [OF this] defaults_pushAddress [OF assms(1), of a]
  have "res = pushAddress as a" by (simp add: preSave_single)
  with defaults_pushAddress [OF assms(1), of a] pushAddress_nonempty [of as a]
  show ?thesis by (simp add: singleDefault_def)
qed

lemma defaults_splice_other:
  assumes "i < length as" and "\<not> isDefault (as ! i)"
  shows "defaults (take i as @ drop (Suc i) as) = defaults as"
proof -
  have "as = take i as @ as ! i # drop (Suc i) as"
    using assms(1) by (simp add: id_take_nth_drop)
  then have "defaults as = defaults (take i as @ as ! i # drop (Suc i) as)" by simp
  also have "\<dots> = defaults (take i as @ drop (Suc i) as)"
    using assms(2) by (simp add: defaults_append defaults_Cons)
  finally show ?thesis by simp
qed

lemma removeAddress_keeps_invariant:
  assumes inv: "singleDefault as" and db: "db email = Some as"
    and idx: "findIndex (\<lambda>a. addr_id a = Some aid) as = Some i"
    and ok: "removeAddress validId (Some email) db (Some aid) = (Inr res, db')"
  shows "singleDefault res"
proof -
  from idx have i: "i < length as" by (simp add: findIndex_Some_iff)
  then have "as \<noteq> []" by auto
  with inv have one: "defaults as = 1" by (simp add: singleDefault_def)
  define spliced where "spliced = take i as @ drop (Suc i) as"
  show ?thesis
  proof (cases "isDefault (as ! i)")
    case True
    from defaults_splice [OF i True] one have none: "defaults spliced = 0"
      by (simp add: spliced_def)
    define promoted where
      "promoted = (if length spliced > 0 then setDefault 0 True spliced else spliced)"
    have dp: "defaults promoted = (if promoted = [] then 0 else 1)"
      using none defaults_setDefault [of 0 spliced True]
      by (auto simp: promoted_def defaults_zero_iff setDefault_def)
    have eq: "(if isDefault (as ! i) \<and> length spliced > 0
               then spliced[0 := (spliced ! 0)\<lparr>isDefault := True\<rparr>] else spliced) = promoted"
      using True by (simp add: promoted_def setDefault_def)
    from removeAddress_Inr [OF ok db idx]
    have "persist email db (save True promoted) = (Inr res, db')"
      unfolding spliced_def [symmetric] eq .
    from persist_save_Inr [OF this] dp have "res = promoted" by (simp add: preSave_single)
    with dp show ?thesis by (simp add: singleDefault_def)
  next
    case False
    from defaults_splice_other [OF i False] one have ds: "defaults spliced = 1"
      by (simp add: spliced_def)
    from removeAddress_Inr [OF ok db idx] False
    have "persist email db (save True spliced) = (Inr res, db')" by (simp add: spliced_def)
    from persist_save_Inr [OF this] ds have "res = spliced" by (simp add: preSave_single)
    with ds show ?thesis by (auto simp: singleDefault_def defaults_def)
  qed
qed

lemma defaults_handleDefault:
  assumes i: "i < length u" and le: "defaults u \<le> 1"
  shows "defaults (handleDefault v i u) =
           (case v of None \<Rightarrow> defaults u | Some True \<Rightarrow> 1
            | Some False \<Rightarrow> (if isDefault (u ! i) then 0 else defaults u))"
proof (cases v)
  case None
  then show ?thesis by (simp add: handleDefault_def)
next
  case (Some b)
  show ?thesis
  proof (cases b)
    case False
    with Some defaults_setDefault [OF i, of False] le show ?thesis
      by (auto simp: handleDefault_def split: if_splits)
  next
    case True
    show ?thesis
    proof (cases "someOtherDefault i u")
      case other: True
      have "defaults (setDefault i True (clearOthers i u)) = 1"
        using defaults_setDefault [of i "clearOthers i u" True] i
        by (simp add: defaults_clearOthers nth_clearOthers split: if_splits)
      with Some True other show ?thesis by (simp add: handleDefault_def)
    next
      case noother: False
      then have none: "\<And>j. j < length u \<Longrightarrow> j \<noteq> i \<Longrightarrow> \<not> isDefault (u ! j)"
        by (auto simp: someOtherDefault_iff)
      have "defaults (setDefault i True u) = 1"
        by (rule defaults_one_iff [of i])
          (use i none in \<open>auto simp: setDefault_def nth_list_update\<close>)
      with Some True noother show ?thesis by (simp add: handleDefault_def)
    qed
  qed
qed

lemma length_handleDefault [simp]: "length (handleDefault v i u) = length u"
  by (simp add: handleDefault_def setDefault_def split: option.splits)

lemma updateAddress_defaults:
  assumes le: "defaults as \<le> 1" and db: "db email = Some as"
    and aid: "req_addressId body = Some aid"
    and idx: "findIndex (\<lambda>a. addr_id a = Some aid) as = Some i"
    and ok: "updateAddress validId (Some email) db body = (Inr res, db')"
  shows "length res = length as \<and>
         defaults res =
           (case req_isDefault body of None \<Rightarrow> defaults as | Some True \<Rightarrow> 1
            | Some False \<Rightarrow> (if isDefault (as ! i) then 0 else defaults as))"
proof -
  define u where "u = as[i := updateFields body (as ! i)]"
  from idx have i: "i < length as" by (simp add: findIndex_Some_iff)
  have du: "defaults u = defaults as" by (simp add: u_def defaults_list_update_same)
  have iu: "i < length u" "isDefault (u ! i) = isDefault (as ! i)" using i by (simp_all add: u_def)
  from le du have leu: "defaults u \<le> 1" by simp
  have dh: "defaults (handleDefault (req_isDefault body) i u) =
           (case req_isDefault body of None \<Rightarrow> defaults as | Some True \<Rightarrow> 1
            | Some False \<Rightarrow> (if isDefault (as ! i) then 0 else defaults as))"
    using defaults_handleDefault [OF iu(1) leu, of "req_isDefault body"] du iu(2)
    by (auto split: option.splits bool.splits)
  with le have "defaults (handleDefault (req_isDefault body) i u) \<le> 1"
    by (auto split: option.splits bool.splits)
  with persist_save_Inr [OF updateAddress_Inr [OF ok db aid idx]]
  have "res = handleDefault (req_isDefault body) i u"
    by (simp add: u_def preSave_single)
  with dh show ?thesis by (simp add: u_def)
qed

lemma updateAddress_keeps_invariant:
  assumes inv: "singleDefault as" and db: "db email = Some as"
    and aid: "req_addressId body = Some aid"
    and idx: "findIndex (\<lambda>a. addr_id a = Some aid) as = Some i"
    and keep: "req_isDefault body = Some False \<Longrightarrow> \<not> isDefault (as ! i)"
    and ok: "updateAddress validId (Some email) db body = (Inr res, db')"
  shows "singleDefault res"
proof -
  from idx have i: "i < length as" by (simp add: findIndex_Some_iff)
  then have ne: "as \<noteq> []" by auto
  with inv have one: "defaults as = 1" by (simp add: singleDefault_def)
  from updateAddress_defaults [OF _ db aid idx ok] one keep
  have "length res = length as" "defaults res = 1"
    by (auto split: option.splits bool.splits)
  with ne show ?thesis by (auto simp: singleDefault_def)
qed

section \<open>Properties of the product handlers\<close>

text \<open>
  Claim C10. A request to create a product whose price is 0 is answered with the error of
  the missing required fields, whatever its other fields are, and the store is left as
  it is.
\<close>

theorem createProduct_zero_price_rejected:
  assumes "pb_price body = Some 0"
  shows "createProduct products body newId =
     (Inl (ValidationFailure
        ''Missing required fields: productId, name, description, price, category, and image are required''),
      products)"
  using assms by (simp add: createProduct_def truthyNumber_def)

theorem createProduct_zero_price_rejected_witness:
  "pb_price (lampBody\<lparr>pb_price := Some 0\<rparr>) = Some 0 \<and>
   createProduct [] (lampBody\<lparr>pb_price := Some 0\<rparr>) ''64c000000000000000000001'' =
     (Inl (ValidationFailure
        ''Missing required fields: productId, name, description, price, category, and image are required''),
      [])"
proof -
  have h: "pb_price (lampBody\<lparr>pb_price := Some 0\<rparr>) = Some 0" by simp
  from createProduct_zero_price_rejected [OF h] h show ?thesis by simp
qed

lemma createProduct_accepts:
  "createProduct [] lampBody ''64c000000000000000000001'' = (Inr lamp, [lamp])"
  by (simp add: createProduct_def lampBody_def lamp_def truthyString_def truthyNumber_def
      orZero_def Let_def)

text \<open>
  Claim C9 at the input where the code breaks it. A request to create a product with the
  price -5 succeeds and stores the product with that price; and a second product with an
  identifier already in use is refused with status 400, the status of a validation
  failure, not with 409.
\<close>

theorem createProduct_accepts_negative_price:
  "createProduct [] (lampBody\<lparr>pb_price := Some (- 5)\<rparr>) ''64c000000000000000000001''
     = (Inr (lamp\<lparr>price := - 5\<rparr>), [lamp\<lparr>price := - 5\<rparr>]) \<and>
   createProduct [lamp] lampBody ''64c000000000000000000002''
     = (Inl (ValidationFailure ''Product ID already exists.''), [lamp])"
  by (simp add: createProduct_def lampBody_def lamp_def truthyString_def truthyNumber_def
      orZero_def Let_def)

text \<open>The update handler does refuse a negative price, with status 400.\<close>

lemma updateProduct_rejects_negative_price:
  assumes "pb_price body = Some x" and "x < 0"
  shows "\<exists>msg. updateProduct validId products ident body = (Inl (ValidationFailure msg), products)"
  using assms by (simp add: updateProduct_def priceNegative_def)

section \<open>Properties of the order handlers\<close>

text \<open>
  The update handler records the time of a status change: a status among the six values
  is stored together with \<open>statusUpdatedAt\<close>, beside \<open>updatedAt\<close>.
\<close>

lemma updateOrder_records_status_time:
  assumes "validId ident" and "orders ident = Some ord"
    and "ob_status body = Some st" and "st \<in> set validStatuses"
  shows "\<exists>ord'. updateOrder validId orders ident body now now' = (Inr ord', orders(ident \<mapsto> ord')) \<and>
           status ord' = st \<and> updatedAt ord' = now \<and> statusUpdatedAt ord' = Some now'"
proof -
  from assms(4) have "st \<noteq> []" by (auto simp: validStatuses_def)
  with assms show ?thesis by (simp add: updateOrder_def Let_def)
qed

lemma updateOrder_cancel_example:
  "updateOrder objectIdIsValid [''64d000000000000000000001'' \<mapsto> shippedOrder]
       ''64d000000000000000000001'' \<lparr>ob_status = Some ''cancelled'', ob_notes = None\<rparr> 2000 2001
     = (Inr \<lparr>status = ''cancelled'', orderNotes = None, updatedAt = 2000,
              statusUpdatedAt = Some 2001\<rparr>,
        [''64d000000000000000000001'' \<mapsto>
           \<lparr>status = ''cancelled'', orderNotes = None, updatedAt = 2000,
             statusUpdatedAt = Some 2001\<rparr>])"
  by (simp add: updateOrder_def shippedOrder_def objectIdIsValid_def isHexDigit_def Let_def
      validStatuses_def)

text \<open>
  Claim C8 at the input where the code breaks it. Cancelling an order shipped at time
  1000, at time 2000, sets its status to \<open>cancelled\<close> and \<open>updatedAt\<close> to 2000 and
  leaves \<open>statusUpdatedAt\<close> at 1000.
\<close>

theorem cancelOrder_keeps_statusUpdatedAt:
  "cancelOrder objectIdIsValid [''64d000000000000000000001'' \<mapsto> shippedOrder]
       ''64d000000000000000000001'' 2000
     = (Inr \<lparr>status = ''cancelled'', orderNotes = None, updatedAt = 2000,
              statusUpdatedAt = Some 1000\<rparr>,
        [''64d000000000000000000001'' \<mapsto>
           \<lparr>status = ''cancelled'', orderNotes = None, updatedAt = 2000,
             statusUpdatedAt = Some 1000\<rparr>])"
  by (simp add: cancelOrder_def shippedOrder_def objectIdIsValid_def isHexDigit_def Let_def)

end
